theory Spec2Isabelle
  imports
    Complex_Main
    "HOL-Library.Product_Lexorder"
    "HOL-Library.List_Lexorder"
    "HOL-Library.Char_ord"
begin

section \<open>Text and dates\<close>

text \<open>
  \<^verbatim>\<open>str.strip()\<close> removes the characters for which \<^verbatim>\<open>str.isspace()\<close> holds from both
  ends. Among the first 256 code points these are tab, line feed, vertical tab, form
  feed, carriage return, the four separators 28 to 31, the space, NEL (133) and the
  no-break space (160).
\<close>

definition isspace :: "char \<Rightarrow> bool" where
  "isspace c = (of_char c \<in> {9, 10, 11, 12, 13, 28, 29, 30, 31, 32, 133, 160 :: nat})"

definition strip :: "string \<Rightarrow> string" where
  "strip s = rev (dropWhile isspace (rev (dropWhile isspace s)))"

definition isdigit :: "char \<Rightarrow> bool" where
  "isdigit c = (48 \<le> (of_char c :: nat) \<and> (of_char c :: nat) \<le> 57)"

definition digit :: "char \<Rightarrow> nat" where
  "digit c = of_char c - 48"

definition digit_char :: "nat \<Rightarrow> char" where
  "digit_char n = char_of (48 + n)"

text \<open>
  A calendar date, the value of a pandas \<^verbatim>\<open>Timestamp\<close> at midnight. A
  \<^verbatim>\<open>Timestamp\<close> counts nanoseconds in 64 bits, so the dates it can hold run from
  1677-09-22 to 2262-04-11; with \<^verbatim>\<open>errors='coerce'\<close> anything else becomes
  \<^verbatim>\<open>NaT\<close>.
\<close>

record date =
  year :: nat
  month :: nat
  day :: nat

definition date_key :: "date \<Rightarrow> nat \<times> nat \<times> nat" where
  "date_key d = (year d, month d, day d)"

definition is_leap :: "nat \<Rightarrow> bool" where
  "is_leap y = (y mod 4 = 0 \<and> (y mod 100 \<noteq> 0 \<or> y mod 400 = 0))"

definition days_in_month :: "nat \<Rightarrow> nat \<Rightarrow> nat" where
  "days_in_month y m =
     (if m = 2 then (if is_leap y then 29 else 28)
      else if m = 4 \<or> m = 6 \<or> m = 9 \<or> m = 11 then 30
      else 31)"

definition valid_timestamp :: "date \<Rightarrow> bool" where
  "valid_timestamp d =
     (1 \<le> month d \<and> month d \<le> 12 \<and> 1 \<le> day d \<and> day d \<le> days_in_month (year d) (month d)
      \<and> (1677, 9, 22) \<le> date_key d \<and> date_key d \<le> (2262, 4, 11))"

text \<open>
  \<^verbatim>\<open>pd.to_datetime(..., format='%d/%m/%Y', errors='coerce')\<close>. The format is matched
  against the whole text as the regular expression
  \<^verbatim>\<open>(3[0-1]|[1-2]\d|0[1-9]|[1-9]| [1-9])/(1[0-2]|0[1-9]|[1-9])/(\d\d\d\d)\<close>:
  the text before the first slash is the day, the text between the two slashes the
  month, the rest the year. A text that does not match, or that names no date a
  \<^verbatim>\<open>Timestamp\<close> can hold, gives \<^verbatim>\<open>NaT\<close>, here \<open>None\<close>.
\<close>

fun split_on :: "char \<Rightarrow> string \<Rightarrow> string list" where
  "split_on sep [] = [[]]"
| "split_on sep (c # cs) =
     (if c = sep then [] # split_on sep cs
      else (case split_on sep cs of
              [] \<Rightarrow> [[c]]
            | p # ps \<Rightarrow> (c # p) # ps))"

fun day_field :: "string \<Rightarrow> nat option" where
  "day_field [c] = (if isdigit c \<and> c \<noteq> CHR ''0'' then Some (digit c) else None)"
| "day_field [c1, c2] =
     (if c1 = CHR ''3'' \<and> (c2 = CHR ''0'' \<or> c2 = CHR ''1'') then Some (30 + digit c2)
      else if (c1 = CHR ''1'' \<or> c1 = CHR ''2'') \<and> isdigit c2 then Some (10 * digit c1 + digit c2)
      else if c1 = CHR ''0'' \<and> isdigit c2 \<and> c2 \<noteq> CHR ''0'' then Some (digit c2)
      else if c1 = CHR '' '' \<and> isdigit c2 \<and> c2 \<noteq> CHR ''0'' then Some (digit c2)
      else None)"
| "day_field _ = None"

fun month_field :: "string \<Rightarrow> nat option" where
  "month_field [c] = (if isdigit c \<and> c \<noteq> CHR ''0'' then Some (digit c) else None)"
| "month_field [c1, c2] =
     (if c1 = CHR ''1'' \<and> (c2 = CHR ''0'' \<or> c2 = CHR ''1'' \<or> c2 = CHR ''2'') then Some (10 + digit c2)
      else if c1 = CHR ''0'' \<and> isdigit c2 \<and> c2 \<noteq> CHR ''0'' then Some (digit c2)
      else None)"
| "month_field _ = None"

fun year_field :: "string \<Rightarrow> nat option" where
  "year_field [c1, c2, c3, c4] =
     (if isdigit c1 \<and> isdigit c2 \<and> isdigit c3 \<and> isdigit c4
      then Some (1000 * digit c1 + 100 * digit c2 + 10 * digit c3 + digit c4)
      else None)"
| "year_field _ = None"

definition make_timestamp :: "nat option \<Rightarrow> nat option \<Rightarrow> nat option \<Rightarrow> date option" where
  "make_timestamp y m d =
     (case (y, m, d) of
        (Some yv, Some mv, Some dv) \<Rightarrow>
          (let t = \<lparr>year = yv, month = mv, day = dv\<rparr>
           in if valid_timestamp t then Some t else None)
      | _ \<Rightarrow> None)"

definition parse_dmy :: "string \<Rightarrow> date option" where
  "parse_dmy s =
     (case split_on (CHR ''/'') s of
        [ds, ms, ys] \<Rightarrow> make_timestamp (year_field ys) (month_field ms) (day_field ds)
      | _ \<Rightarrow> None)"

text \<open>\<^verbatim>\<open>.dt.strftime('%Y-%m-%d')\<close>: four digits, two digits, two digits.\<close>

definition pad2 :: "nat \<Rightarrow> string" where
  "pad2 n = [digit_char (n div 10 mod 10), digit_char (n mod 10)]"

definition pad4 :: "nat \<Rightarrow> string" where
  "pad4 n = [digit_char (n div 1000 mod 10), digit_char (n div 100 mod 10),
             digit_char (n div 10 mod 10), digit_char (n mod 10)]"

definition strftime_iso :: "date \<Rightarrow> string" where
  "strftime_iso d = pad4 (year d) @ ''-'' @ pad2 (month d) @ ''-'' @ pad2 (day d)"

text \<open>
  \<^verbatim>\<open>pd.to_datetime(..., errors='coerce')\<close> without a format, as the program applies
  it to the \<^verbatim>\<open>data_coleta\<close> column read back from the table. The program writes
  that column only through \<^verbatim>\<open>strftime('%Y-%m-%d')\<close>, and the library takes the
  format of a column from its entries; the function below reads exactly that form,
  \<^verbatim>\<open>YYYY-MM-DD\<close>, and gives \<^verbatim>\<open>NaT\<close> for any other text.
\<close>

definition two_digits :: "char \<Rightarrow> char \<Rightarrow> nat option" where
  "two_digits c1 c2 = (if isdigit c1 \<and> isdigit c2 then Some (10 * digit c1 + digit c2) else None)"

definition parse_iso :: "string \<Rightarrow> date option" where
  "parse_iso s =
     (if length s = 10 \<and> s ! 4 = CHR ''-'' \<and> s ! 7 = CHR ''-''
      then make_timestamp (year_field (take 4 s)) (two_digits (s ! 5) (s ! 6)) (two_digits (s ! 8) (s ! 9))
      else None)"

section \<open>The table and the uploaded file\<close>

text \<open>
  A cell of a price column as \<^verbatim>\<open>pd.read_csv(..., decimal=',')\<close> delivers it: missing
  (\<^verbatim>\<open>NaN\<close>), a number, or the text itself when the column could not be read as
  numbers. Numbers are taken as reals, so sums and means below are exact.
\<close>

datatype cell = NaN | Num real | Txt string

text \<open>
  A row of table \<^verbatim>\<open>precos_combustiveis\<close> (\<^verbatim>\<open>init_db\<close>), without the
  \<^verbatim>\<open>id\<close> the table assigns by itself and the program never reads. A text column
  is \<open>None\<close> where the table holds \<^verbatim>\<open>NULL\<close>.

  A row of the uploaded file, after \<^verbatim>\<open>read_csv\<close> and the renaming of line 134, has
  the same eleven columns, with \<open>None\<close> for an empty cell, and the columns of the file
  the renaming does not know in \<open>outras\<close>. The three key columns are read as text.
\<close>

record db_row =
  regiao_sigla :: "string option"
  estado_sigla :: "string option"
  municipio :: "string option"
  revenda :: "string option"
  cnpj_revenda :: "string option"
  produto :: "string option"
  data_coleta :: "string option"
  valor_venda :: cell
  valor_compra :: cell
  unidade_medida :: "string option"
  bandeira :: "string option"

record csv_row = db_row +
  outras :: "string option list"

type_synonym key = "string option \<times> string option \<times> string option"

definition key_of :: "'a db_row_scheme \<Rightarrow> key" where
  "key_of r = (cnpj_revenda r, data_coleta r, produto r)"

text \<open>
  \<^verbatim>\<open>UNIQUE(cnpj_revenda, data_coleta, produto)\<close>: SQLite refuses a row whose three key
  columns equal those of a row already in the table, unless one of them is
  \<^verbatim>\<open>NULL\<close> (two \<^verbatim>\<open>NULL\<close>s are never equal to it).
\<close>

definition unique_conflict :: "key \<Rightarrow> key \<Rightarrow> bool" where
  "unique_conflict k k' =
     (case k of (c, d, p) \<Rightarrow> c \<noteq> None \<and> d \<noteq> None \<and> p \<noteq> None \<and> k = k')"

text \<open>
  The exceptions the two routes can meet: \<^verbatim>\<open>sqlite3.IntegrityError\<close> from the table, and
  \<^verbatim>\<open>ValueError\<close>, \<^verbatim>\<open>TypeError\<close> and \<^verbatim>\<open>KeyError\<close> from the computations of the
  dashboard.
\<close>

datatype error = IntegrityError | ValueError | TypeError | KeyError

fun insert_row :: "db_row list \<Rightarrow> db_row \<Rightarrow> error + db_row list" where
  "insert_row tbl r =
     (if list_ex (\<lambda>e. unique_conflict (key_of e) (key_of r)) tbl then Inl IntegrityError
      else Inr (tbl @ [r]))"

text \<open>
  \<^verbatim>\<open>to_sql(..., if_exists='append')\<close> inserts the rows one after the other in one
  transaction; the first refused row raises, and the transaction is rolled back.
\<close>

fun to_sql :: "db_row list \<Rightarrow> db_row list \<Rightarrow> error + db_row list" where
  "to_sql tbl [] = Inr tbl"
| "to_sql tbl (r # rs) =
     (case insert_row tbl r of
        Inl e \<Rightarrow> Inl e
      | Inr tbl' \<Rightarrow> to_sql tbl' rs)"

section \<open>Ingestion: \<^verbatim>\<open>upload_file\<close>, lines 130 to 151\<close>

definition isna_cell :: "cell \<Rightarrow> bool" where
  "isna_cell c = (c = NaN)"

definition all_na :: "csv_row \<Rightarrow> bool" where
  "all_na r =
     (regiao_sigla r = None \<and> estado_sigla r = None \<and> municipio r = None \<and> revenda r = None
      \<and> cnpj_revenda r = None \<and> produto r = None \<and> data_coleta r = None
      \<and> isna_cell (valor_venda r) \<and> isna_cell (valor_compra r)
      \<and> unidade_medida r = None \<and> bandeira r = None \<and> list_all (\<lambda>c. c = None) (outras r))"

text \<open>Line 133: \<^verbatim>\<open>dropna(how='all')\<close>.\<close>

definition dropna_all :: "csv_row list \<Rightarrow> csv_row list" where
  "dropna_all df = filter (\<lambda>r. \<not> all_na r) df"

text \<open>Line 135: \<^verbatim>\<open>dropna(subset=['cnpj_revenda', 'data_coleta', 'produto'])\<close>.\<close>

definition has_keys :: "'a db_row_scheme \<Rightarrow> bool" where
  "has_keys r = (cnpj_revenda r \<noteq> None \<and> data_coleta r \<noteq> None \<and> produto r \<noteq> None)"

definition dropna_subset :: "csv_row list \<Rightarrow> csv_row list" where
  "dropna_subset df = filter has_keys df"

text \<open>
  Line 136: \<^verbatim>\<open>drop_duplicates(subset=[...])\<close> keeps the first row of each key triple,
  compared as the cells stand at that line.
\<close>

fun drop_seen :: "key list \<Rightarrow> csv_row list \<Rightarrow> csv_row list" where
  "drop_seen seen [] = []"
| "drop_seen seen (r # rs) =
     (if key_of r \<in> set seen then drop_seen seen rs
      else r # drop_seen (key_of r # seen) rs)"

definition drop_duplicates :: "csv_row list \<Rightarrow> csv_row list" where
  "drop_duplicates df = drop_seen [] df"

text \<open>
  Lines 137 to 140: \<^verbatim>\<open>astype(str).str.strip()\<close> on \<^verbatim>\<open>cnpj_revenda\<close> and
  \<^verbatim>\<open>produto\<close>, in the new rows and, when there are any, in the keys read from the
  table. \<^verbatim>\<open>astype(str)\<close> writes a missing cell as the text \<^verbatim>\<open>nan\<close> and a
  \<^verbatim>\<open>NULL\<close> read from the table as the text \<^verbatim>\<open>None\<close>.
\<close>

definition astype_str :: "string \<Rightarrow> string option \<Rightarrow> string" where
  "astype_str na c = (case c of None \<Rightarrow> na | Some s \<Rightarrow> s)"

definition strip_new :: "csv_row \<Rightarrow> csv_row" where
  "strip_new r =
     r\<lparr>cnpj_revenda := Some (strip (astype_str ''nan'' (cnpj_revenda r))),
       produto := Some (strip (astype_str ''nan'' (produto r)))\<rparr>"

definition strip_existing :: "key \<Rightarrow> key" where
  "strip_existing k =
     (case k of (c, d, p) \<Rightarrow>
        (Some (strip (astype_str ''None'' c)), d, Some (strip (astype_str ''None'' p))))"

text \<open>
  Line 141: the date text of a new row is read as day/month/year and written back as
  \<^verbatim>\<open>%Y-%m-%d\<close>; \<^verbatim>\<open>strftime\<close> of \<^verbatim>\<open>NaT\<close> is a missing cell.
  Line 143: the same for the keys read from the table, without a format.
\<close>

definition to_datetime_new :: "string option \<Rightarrow> string option" where
  "to_datetime_new c =
     (case c of None \<Rightarrow> None | Some s \<Rightarrow> map_option strftime_iso (parse_dmy s))"

definition to_datetime_existing :: "string option \<Rightarrow> string option" where
  "to_datetime_existing c =
     (case c of None \<Rightarrow> None | Some s \<Rightarrow> map_option strftime_iso (parse_iso s))"

definition date_new :: "csv_row \<Rightarrow> csv_row" where
  "date_new r = r\<lparr>data_coleta := to_datetime_new (data_coleta r)\<rparr>"

definition date_existing :: "key \<Rightarrow> key" where
  "date_existing k = (case k of (c, d, p) \<Rightarrow> (c, to_datetime_existing d, p))"

text \<open>
  Line 144: the left merge on the three key columns, with its indicator. Each new row
  is paired with every key of the table equal to its own (a missing cell is equal to a
  missing cell in a pandas merge) and marked \<^verbatim>\<open>both\<close>; a row with no equal key
  appears once, marked \<^verbatim>\<open>left_only\<close>. The order of the new rows is kept.
\<close>

datatype indicator = Left_only | Both

fun merge_left :: "csv_row list \<Rightarrow> key list \<Rightarrow> (csv_row \<times> indicator) list" where
  "merge_left [] existing = []"
| "merge_left (r # rs) existing =
     (let matches = filter (\<lambda>k. k = key_of r) existing
      in (if matches = [] then [(r, Left_only)] else map (\<lambda>k. (r, Both)) matches)
         @ merge_left rs existing)"

text \<open>The new rows as they stand before the merge (lines 132 to 141).\<close>

definition df_new :: "csv_row list \<Rightarrow> csv_row list" where
  "df_new file_rows =
     map (date_new \<circ> strip_new) (drop_duplicates (dropna_subset (dropna_all file_rows)))"

text \<open>The keys of the table as they stand before the merge (lines 131, 139 to 143).\<close>

definition existing_records :: "db_row list \<Rightarrow> key list" where
  "existing_records tbl =
     (let existing = map key_of tbl;
          existing = (if existing \<noteq> [] then map strip_existing existing else existing);
          existing = (if existing \<noteq> [] then map date_existing existing else existing)
      in existing)"

definition df_merged :: "db_row list \<Rightarrow> csv_row list \<Rightarrow> (csv_row \<times> indicator) list" where
  "df_merged tbl file_rows = merge_left (df_new file_rows) (existing_records tbl)"

text \<open>Line 145.\<close>

definition df_to_insert :: "db_row list \<Rightarrow> csv_row list \<Rightarrow> csv_row list" where
  "df_to_insert tbl file_rows =
     map fst (filter (\<lambda>x. snd x = Left_only) (df_merged tbl file_rows))"

text \<open>Line 147: the eleven columns of the table.\<close>

definition colunas_db :: "csv_row \<Rightarrow> db_row" where
  "colunas_db r = db_row.truncate r"

text \<open>
  The whole of the \<^verbatim>\<open>try\<close> block. \<open>Inr (tbl', novos, duplicados)\<close> is the table
  after the call and the two counts of the message; \<open>Inl e\<close> is the
  \<^verbatim>\<open>except\<close> branch, which leaves the table as it was.
\<close>

definition upload_file :: "db_row list \<Rightarrow> csv_row list \<Rightarrow> error + (db_row list \<times> nat \<times> nat)" where
  "upload_file tbl file_rows =
     (let ins = df_to_insert tbl file_rows;
          written = (if ins \<noteq> [] then to_sql tbl (map colunas_db ins) else Inr tbl)
      in case written of
           Inl e \<Rightarrow> Inl e
         | Inr tbl' \<Rightarrow>
             (let novos = length ins;
                  duplicados = length (df_new file_rows) - novos
              in Inr (tbl', novos, duplicados)))"

definition table_after :: "db_row list \<Rightarrow> csv_row list \<Rightarrow> db_row list" where
  "table_after tbl file_rows =
     (case upload_file tbl file_rows of Inl e \<Rightarrow> tbl | Inr (tbl', n, d) \<Rightarrow> tbl')"

text \<open>A sequence of uploads, one file after the other.\<close>

definition uploads :: "db_row list \<Rightarrow> csv_row list list \<Rightarrow> db_row list" where
  "uploads tbl files = foldl table_after tbl files"

section \<open>Aggregation: \<^verbatim>\<open>dashboard\<close>, lines 56 to 112\<close>

text \<open>
  Lines 58 to 61. The table is read whole and \<^verbatim>\<open>data_coleta\<close> is turned into
  \<^verbatim>\<open>Timestamp\<close>s by \<^verbatim>\<open>pd.to_datetime\<close> without \<^verbatim>\<open>errors='coerce'\<close>: a text that
  is no date raises \<^verbatim>\<open>ValueError\<close>, and the \<^verbatim>\<open>except\<close> branch then goes on with an
  empty frame. A row of the frame is a row of the table with the date in \<open>coleta\<close>.
\<close>

record frame_row = db_row +
  coleta :: "date option"

definition to_datetime_raise :: "string option \<Rightarrow> error + date option" where
  "to_datetime_raise c =
     (case c of
        None \<Rightarrow> Inr None
      | Some s \<Rightarrow> (case parse_iso s of None \<Rightarrow> Inl ValueError | Some t \<Rightarrow> Inr (Some t)))"

definition with_coleta :: "db_row \<Rightarrow> date option \<Rightarrow> frame_row" where
  "with_coleta r t = db_row.extend r (frame_row.fields t)"

fun read_frame_rows :: "db_row list \<Rightarrow> error + frame_row list" where
  "read_frame_rows [] = Inr []"
| "read_frame_rows (r # rs) =
     (case to_datetime_raise (data_coleta r) of
        Inl e \<Rightarrow> Inl e
      | Inr t \<Rightarrow> (case read_frame_rows rs of
                   Inl e \<Rightarrow> Inl e
                 | Inr df \<Rightarrow> Inr (with_coleta r t # df)))"

definition read_frame :: "db_row list \<Rightarrow> frame_row list" where
  "read_frame tbl = (case read_frame_rows tbl of Inl e \<Rightarrow> [] | Inr df \<Rightarrow> df)"

text \<open>
  A numeric column holds numbers and \<^verbatim>\<open>NaN\<close>; \<^verbatim>\<open>mean()\<close> skips the \<^verbatim>\<open>NaN\<close>s and
  is \<^verbatim>\<open>NaN\<close> itself (\<open>None\<close>) when nothing is left.
\<close>

definition num_of :: "cell \<Rightarrow> real option" where
  "num_of c = (case c of Num v \<Rightarrow> Some v | _ \<Rightarrow> None)"

definition is_txt :: "cell \<Rightarrow> bool" where
  "is_txt c = (case c of Txt s \<Rightarrow> True | _ \<Rightarrow> False)"

definition present :: "real option list \<Rightarrow> real list" where
  "present xs = List.map_filter (\<lambda>x. x) xs"

definition mean_skipna :: "real option list \<Rightarrow> real option" where
  "mean_skipna xs =
     (let vs = present xs
      in if vs = [] then None else Some (sum_list vs / real (length vs)))"

text \<open>
  \<^verbatim>\<open>rolling(window=w, min_periods=1).mean()\<close>: the value at position \<open>i\<close> (from 0) is
  the mean of the numbers among the at most \<open>w\<close> entries that end at \<open>i\<close>, and
  \<^verbatim>\<open>NaN\<close> when there is none among them.
\<close>

definition rolling_mean :: "nat \<Rightarrow> real option list \<Rightarrow> real option list" where
  "rolling_mean w xs =
     map (\<lambda>i. mean_skipna (drop (Suc i - w) (take (Suc i) xs))) [0..<length xs]"

text \<open>The values of a column in the order of their first appearance, without the missing ones.\<close>

definition uniques :: "'a option list \<Rightarrow> 'a list" where
  "uniques xs = rev (remdups (rev (List.map_filter (\<lambda>x. x) xs)))"

text \<open>
  \<^verbatim>\<open>value_counts()\<close>: each value with the number of its rows, the larger count first.
  Values of equal count are left here in the order of their first appearance.
\<close>

definition value_counts :: "string option list \<Rightarrow> (string \<times> nat) list" where
  "value_counts xs =
     sort_key (\<lambda>kc. - int (snd kc)) (map (\<lambda>k. (k, count_list xs (Some k))) (uniques xs))"

definition principais_produtos :: "frame_row list \<Rightarrow> string list" where
  "principais_produtos df = map fst (take 4 (value_counts (map produto df)))"

text \<open>
  Line 78: \<^verbatim>\<open>groupby(['data_coleta', 'produto'])['valor_venda'].mean().unstack()\<close>.
  Rows without a date or without a product belong to no group. The result has one row
  for each date of a group, in ascending order, and one column for each product of a
  group, in ascending order; a cell is the mean price of its group, and \<^verbatim>\<open>NaN\<close> where
  there is no such group.
\<close>

definition grouped :: "frame_row list \<Rightarrow> frame_row list" where
  "grouped df = filter (\<lambda>r. coleta r \<noteq> None \<and> produto r \<noteq> None) df"

definition serie_index :: "frame_row list \<Rightarrow> date list" where
  "serie_index df = sort_key date_key (remdups (List.map_filter coleta (grouped df)))"

definition serie_columns :: "frame_row list \<Rightarrow> string list" where
  "serie_columns df = sort (remdups (List.map_filter produto (grouped df)))"

definition serie_column :: "frame_row list \<Rightarrow> string \<Rightarrow> real option list" where
  "serie_column df p =
     map (\<lambda>d. mean_skipna (map (num_of \<circ> valor_venda)
                 (filter (\<lambda>r. coleta r = Some d \<and> produto r = Some p) df)))
         (serie_index df)"

text \<open>Lines 79 to 83: the smoothed column of each of the four main products that has one.\<close>

definition plot_serie_temporal :: "frame_row list \<Rightarrow> (string \<times> real option list) list" where
  "plot_serie_temporal df =
     map (\<lambda>p. (p, rolling_mean 30 (serie_column df p)))
         (filter (\<lambda>p. p \<in> set (serie_columns df)) (principais_produtos df))"

text \<open>
  Lines 94 to 96: the mean price of each state, sorted ascending with \<^verbatim>\<open>NaN\<close> last; the
  first five, and the last five sorted descending. States of equal mean are left here
  in the order the sort finds them.
\<close>

definition nan_last :: "real option \<Rightarrow> nat \<times> real" where
  "nan_last m = (case m of None \<Rightarrow> (1, 0) | Some v \<Rightarrow> (0, v))"

definition nan_last_desc :: "real option \<Rightarrow> nat \<times> real" where
  "nan_last_desc m = (case m of None \<Rightarrow> (1, 0) | Some v \<Rightarrow> (0, - v))"

definition preco_medio_estado :: "frame_row list \<Rightarrow> (string \<times> real option) list" where
  "preco_medio_estado df =
     sort_key (nan_last \<circ> snd)
       (map (\<lambda>s. (s, mean_skipna (map (num_of \<circ> valor_venda) (filter (\<lambda>r. estado_sigla r = Some s) df))))
            (sort (remdups (List.map_filter estado_sigla df))))"

definition top_5_estados_baratos :: "frame_row list \<Rightarrow> (string \<times> real option) list" where
  "top_5_estados_baratos df = take 5 (preco_medio_estado df)"

definition top_5_estados_caros :: "frame_row list \<Rightarrow> (string \<times> real option) list" where
  "top_5_estados_caros df =
     (let m = preco_medio_estado df
      in sort_key (nan_last_desc \<circ> snd) (drop (length m - 5) m))"

text \<open>
  Line 99: \<^verbatim>\<open>df['produto'].mode()[0]\<close>. \<^verbatim>\<open>mode()\<close> gives the values of the largest
  count in ascending order; without any product it is empty and \<^verbatim>\<open>[0]\<close> raises.
\<close>

definition count_produto :: "frame_row list \<Rightarrow> string \<Rightarrow> nat" where
  "count_produto df p = count_list (map produto df) (Some p)"

definition mode :: "frame_row list \<Rightarrow> string list" where
  "mode df =
     (let ps = uniques (map produto df)
      in sort (filter (\<lambda>p. list_all (\<lambda>q. count_produto df q \<le> count_produto df p) ps) ps))"

definition produto_mais_comum :: "frame_row list \<Rightarrow> error + string" where
  "produto_mais_comum df = (case mode df of [] \<Rightarrow> Inl KeyError | p # ps \<Rightarrow> Inr p)"

text \<open>Line 100: the prices of the rows of that product.\<close>

definition precos_produto_comum :: "frame_row list \<Rightarrow> string \<Rightarrow> real option list" where
  "precos_produto_comum df p = map (num_of \<circ> valor_venda) (filter (\<lambda>r. produto r = Some p) df)"

text \<open>
  Line 102: \<^verbatim>\<open>plt.hist(..., bins=30)\<close>. The numbers of the sample are counted in
  \<open>bins\<close> intervals of equal width between the least and the greatest of them (between
  half a unit below and above when these are equal); an interval holds its left end,
  the last one both ends. \<^verbatim>\<open>NaN\<close>s are not counted, and a sample without a number
  raises \<^verbatim>\<open>ValueError\<close>.
\<close>

definition bin_of :: "nat \<Rightarrow> real \<Rightarrow> real \<Rightarrow> real \<Rightarrow> nat" where
  "bin_of bins lo hi x = min (bins - 1) (nat \<lfloor>(x - lo) * real bins / (hi - lo)\<rfloor>)"

definition hist :: "real option list \<Rightarrow> nat \<Rightarrow> error + nat list" where
  "hist sample bins =
     (let vs = present sample
      in if vs = [] then Inl ValueError
         else (let lo = (if Min (set vs) = Max (set vs) then Min (set vs) - 1 / 2 else Min (set vs));
                   hi = (if Min (set vs) = Max (set vs) then Max (set vs) + 1 / 2 else Max (set vs))
               in Inr (map (\<lambda>k. length (filter (\<lambda>x. bin_of bins lo hi x = k) vs)) [0..<bins])))"

text \<open>\<^verbatim>\<open>strftime('%d/%m/%Y')\<close> of a date; of \<^verbatim>\<open>NaT\<close> it raises \<^verbatim>\<open>ValueError\<close>.\<close>

definition strftime_dmy :: "date option \<Rightarrow> error + string" where
  "strftime_dmy t =
     (case t of
        None \<Rightarrow> Inl ValueError
      | Some d \<Rightarrow> Inr (pad2 (day d) @ ''/'' @ pad2 (month d) @ ''/'' @ pad4 (year d)))"

text \<open>\<^verbatim>\<open>min()\<close> and \<^verbatim>\<open>max()\<close> of the date column skip \<^verbatim>\<open>NaT\<close>.\<close>

definition min_date :: "date option list \<Rightarrow> date option" where
  "min_date ts =
     (case sort_key date_key (List.map_filter (\<lambda>t. t) ts) of [] \<Rightarrow> None | d # ds \<Rightarrow> Some d)"

definition max_date :: "date option list \<Rightarrow> date option" where
  "max_date ts =
     (case rev (sort_key date_key (List.map_filter (\<lambda>t. t) ts)) of [] \<Rightarrow> None | d # ds \<Rightarrow> Some d)"

text \<open>The dictionary \<^verbatim>\<open>analyses\<close> the template receives.\<close>

record analyses =
  kpi_total_registros :: nat
  kpi_data_inicio :: string
  kpi_data_fim :: string
  kpi_preco_medio_geral :: "real option"
  serie_temporal :: "(string \<times> real option list) list"
  estados_baratos :: "(string \<times> real option) list"
  estados_caros :: "(string \<times> real option) list"
  produto_analisado :: string
  distribuicao_precos :: "nat list"

text \<open>
  What the route renders: the template with the empty dictionary and the message that
  the base is empty (lines 65 to 67), or the template with the four analyses.
\<close>

datatype page = Base_vazia | Painel analyses

definition dashboard_frame :: "frame_row list \<Rightarrow> error + page" where
  "dashboard_frame df =
     (if df = [] then Inr Base_vazia
      else
        case strftime_dmy (min_date (map coleta df)) of Inl e \<Rightarrow> Inl e | Inr inicio \<Rightarrow>
        case strftime_dmy (max_date (map coleta df)) of Inl e \<Rightarrow> Inl e | Inr fim \<Rightarrow>
        if list_ex (\<lambda>r. is_txt (valor_venda r)) df then Inl TypeError
        else
          case produto_mais_comum df of Inl e \<Rightarrow> Inl e | Inr p \<Rightarrow>
          case hist (precos_produto_comum df p) 30 of Inl e \<Rightarrow> Inl e | Inr h \<Rightarrow>
            Inr (Painel
              \<lparr>kpi_total_registros = length df,
               kpi_data_inicio = inicio,
               kpi_data_fim = fim,
               kpi_preco_medio_geral = mean_skipna (map (num_of \<circ> valor_venda) df),
               serie_temporal = plot_serie_temporal df,
               estados_baratos = top_5_estados_baratos df,
               estados_caros = top_5_estados_caros df,
               produto_analisado = p,
               distribuicao_precos = h\<rparr>))"

definition dashboard :: "db_row list \<Rightarrow> error + page" where
  "dashboard tbl = dashboard_frame (read_frame tbl)"

section \<open>Example rows\<close>

text \<open>A file row with the given seller, date text, product and prices, every other cell empty.\<close>

definition example_row :: "string \<Rightarrow> string \<Rightarrow> string \<Rightarrow> cell \<Rightarrow> cell \<Rightarrow> csv_row" where
  "example_row c d p v w =
     \<lparr>regiao_sigla = None, estado_sigla = None, municipio = None, revenda = None,
      cnpj_revenda = Some c, produto = Some p, data_coleta = Some d,
      valor_venda = v, valor_compra = w, unidade_medida = None, bandeira = None,
      outras = []\<rparr>"

text \<open>The same as a row of the table, the date cell given as it is stored.\<close>

definition example_record :: "string \<Rightarrow> string option \<Rightarrow> string \<Rightarrow> cell \<Rightarrow> cell \<Rightarrow> db_row" where
  "example_record c d p v w =
     \<lparr>regiao_sigla = None, estado_sigla = None, municipio = None, revenda = None,
      cnpj_revenda = Some c, produto = Some p, data_coleta = d,
      valor_venda = v, valor_compra = w, unidade_medida = None, bandeira = None\<rparr>"

text \<open>
  The file of the scenario of the specification: seller A twice with the same date and
  product, then seller B.
\<close>

definition scenario_file :: "csv_row list" where
  "scenario_file =
     [example_row ''A'' ''01/01/2024'' ''Gas'' (Num 5) NaN,
      example_row ''A'' ''01/01/2024'' ''Gas'' (Num 5) NaN,
      example_row ''B'' ''01/01/2024'' ''Gas'' (Num (51 / 10)) NaN]"

text \<open>Two rows of one seller, date and product that differ in the blanks around the seller.\<close>

definition blank_file :: "csv_row list" where
  "blank_file =
     [example_row '' A'' ''01/01/2024'' ''Gas'' (Num 5) NaN,
      example_row ''A'' ''01/01/2024'' ''Gas'' (Num 6) NaN]"



section \<open>Notions of the specification\<close>

text \<open>
  A valid row in the words of the specification: a row of the file that is neither
  entirely empty nor rejected for a missing or unparsable key field.
\<close>

definition spec_valid_row :: "csv_row \<Rightarrow> bool" where
  "spec_valid_row r =
     (\<not> all_na r \<and> cnpj_revenda r \<noteq> None \<and> produto r \<noteq> None
      \<and> (case data_coleta r of None \<Rightarrow> False | Some s \<Rightarrow> parse_dmy s \<noteq> None))"

text \<open>Every date text of the file can be read as day/month/year.\<close>

definition dates_parse :: "csv_row list \<Rightarrow> bool" where
  "dates_parse f = list_all (\<lambda>r. case data_coleta r of None \<Rightarrow> True | Some s \<Rightarrow> parse_dmy s \<noteq> None) f"



section \<open>Facts about text and dates\<close>










lemma make_timestamp_valid: "make_timestamp y m d = Some t \<Longrightarrow> valid_timestamp t"
  by (auto simp: make_timestamp_def Let_def split: option.splits if_splits)




lemma parse_iso_valid: "parse_iso s = Some t \<Longrightarrow> valid_timestamp t"
  unfolding parse_iso_def by (simp split: if_splits) (erule make_timestamp_valid)



section \<open>Facts about the upload\<close>

lemma to_sql_appends: "to_sql tbl rs = Inr tbl' \<Longrightarrow> tbl' = tbl @ rs"
proof (induction rs arbitrary: tbl)
  case Nil
  then show ?case by simp
next
  case (Cons r rs)
  from Cons.prems have "to_sql (tbl @ [r]) rs = Inr tbl'"
    by (simp split: if_splits)
  then have "tbl' = (tbl @ [r]) @ rs" by (rule Cons.IH)
  then show ?case by simp
qed

lemma merge_left_set:
  "(x, ind) \<in> set (merge_left rs ex) \<longleftrightarrow> x \<in> set rs \<and> (ind = Both \<longleftrightarrow> key_of x \<in> set ex)"
proof (induction rs)
  case Nil
  then show ?case by simp
next
  case (Cons r rs)
  have m: "filter (\<lambda>k. k = key_of r) ex = [] \<longleftrightarrow> key_of r \<notin> set ex"
    by (auto simp: filter_empty_conv)
  show ?case
    using Cons by (cases ind) (auto simp: Let_def m)
qed

lemma left_only_rows:
  "map fst (filter (\<lambda>x. snd x = Left_only) (merge_left rs ex)) = filter (\<lambda>r. key_of r \<notin> set ex) rs"
proof (induction rs)
  case Nil
  then show ?case by simp
next
  case (Cons r rs)
  have m: "filter (\<lambda>k. k = key_of r) ex = [] \<longleftrightarrow> key_of r \<notin> set ex"
    by (auto simp: filter_empty_conv)
  have b: "filter (\<lambda>x. snd x = Left_only) (map (\<lambda>k. (r, Both)) (filter (\<lambda>k. k = key_of r) ex)) = []"
    by (simp add: filter_empty_conv)
  show ?case
    using Cons by (simp add: Let_def m b)
qed

lemma df_to_insert_eq:
  "df_to_insert tbl f = filter (\<lambda>r. key_of r \<notin> set (existing_records tbl)) (df_new f)"
  by (simp add: df_to_insert_def df_merged_def left_only_rows)

lemma existing_records_eq:
  "existing_records tbl = map (date_existing \<circ> strip_existing \<circ> key_of) tbl"
  by (simp add: existing_records_def Let_def)

lemma key_of_colunas_db: "key_of (colunas_db r) = key_of r"
  by (simp add: key_of_def colunas_db_def db_row.truncate_def)

lemma key_of_new:
  "key_of (date_new (strip_new r)) =
     (Some (strip (astype_str ''nan'' (cnpj_revenda r))), to_datetime_new (data_coleta r),
      Some (strip (astype_str ''nan'' (produto r))))"
  by (simp add: key_of_def date_new_def strip_new_def)


lemma upload_file_Inr:
  assumes "upload_file tbl f = Inr (tbl', n, d)"
  shows "tbl' = tbl @ map colunas_db (df_to_insert tbl f)"
    and "n = length (df_to_insert tbl f)"
    and "n + d = length (df_new f)"
proof -
  let ?ins = "df_to_insert tbl f"
  have le: "length ?ins \<le> length (df_new f)"
    by (simp add: df_to_insert_eq)
  from assms show "tbl' = tbl @ map colunas_db ?ins"
    by (auto simp: upload_file_def Let_def split: if_splits sum.splits dest: to_sql_appends)
  from assms show n: "n = length ?ins"
    by (auto simp: upload_file_def Let_def split: if_splits sum.splits)
  from assms have "d = length (df_new f) - length ?ins"
    by (auto simp: upload_file_def Let_def split: if_splits sum.splits)
  with n le show "n + d = length (df_new f)" by simp
qed



lemma drop_seen_subset: "set (drop_seen seen xs) \<subseteq> set xs"
  by (induction xs arbitrary: seen) auto

lemma drop_seen_keys: "key_of ` set (drop_seen seen xs) = key_of ` set xs - set seen"
  by (induction xs arbitrary: seen) auto

lemma has_keys_not_all_na: "has_keys r \<Longrightarrow> \<not> all_na r"
  by (simp add: has_keys_def all_na_def)

lemma dropna_all_redundant: "dropna_subset (dropna_all f) = dropna_subset f"
  by (auto simp: dropna_subset_def dropna_all_def has_keys_not_all_na intro: filter_cong)

lemma cleaned_key:
  assumes "r \<in> set f" "has_keys r"
  shows "\<exists>r' \<in> set (drop_duplicates (dropna_subset (dropna_all f))). key_of r' = key_of r"
proof -
  from assms have "r \<in> set (dropna_subset f)"
    by (simp add: dropna_subset_def)
  then have "key_of r \<in> key_of ` set (drop_seen [] (dropna_subset f))"
    by (simp add: drop_seen_keys)
  then show ?thesis
    by (auto simp: drop_duplicates_def dropna_all_redundant)
qed

lemma key_of_new_cong: "key_of r' = key_of r \<Longrightarrow> key_of (date_new (strip_new r')) = key_of (date_new (strip_new r))"
  by (simp add: key_of_new) (simp add: key_of_def)

lemma valid_rows_eq:
  assumes "dates_parse f"
  shows "filter spec_valid_row f = dropna_subset (dropna_all f)"
proof -
  have "\<And>r. r \<in> set f \<Longrightarrow> spec_valid_row r = (has_keys r \<and> \<not> all_na r)"
    using assms by (auto simp: dates_parse_def list_all_iff spec_valid_row_def has_keys_def split: option.splits)
  then show ?thesis
    by (auto simp: dropna_subset_def dropna_all_def intro: filter_cong)
qed






lemma digit_char_simps:
  "digit_char 0 = CHR ''0''" "digit_char 1 = CHR ''1''" "digit_char 2 = CHR ''2''"
  "digit_char 3 = CHR ''3''" "digit_char 4 = CHR ''4''" "digit_char 5 = CHR ''5''"
  "digit_char 6 = CHR ''6''" "digit_char 7 = CHR ''7''" "digit_char 8 = CHR ''8''"
  "digit_char 9 = CHR ''9''" "digit_char (Suc 0) = CHR ''1''"
  by code_simp+

text \<open>The equations that evaluate an upload on given rows.\<close>

lemmas upload_eval = upload_file_def df_to_insert_def df_merged_def df_new_def existing_records_def
  dropna_all_def dropna_subset_def all_na_def has_keys_def drop_duplicates_def key_of_def
  strip_new_def date_new_def astype_str_def to_datetime_new_def parse_dmy_def colunas_db_def
  db_row.truncate_def unique_conflict_def strip_def isspace_def example_row_def example_record_def
  make_timestamp_def valid_timestamp_def date_key_def days_in_month_def is_leap_def isdigit_def
  digit_def strftime_iso_def pad2_def pad4_def digit_char_simps isna_cell_def
  strip_existing_def date_existing_def to_datetime_existing_def parse_iso_def two_digits_def
  table_after_def uploads_def

lemma scenario_upload:
  "upload_file [] scenario_file
     = Inr ([example_record ''A'' (Some ''2024-01-01'') ''Gas'' (Num 5) NaN,
             example_record ''B'' (Some ''2024-01-01'') ''Gas'' (Num (51 / 10)) NaN], 2, 0)"
  by (simp add: scenario_file_def upload_eval)

lemma scenario_valid: "filter spec_valid_row scenario_file = scenario_file"
  by (simp add: scenario_file_def spec_valid_row_def upload_eval)



section \<open>Properties of the upload\<close>





text \<open>
  C3, normalisation equivalence in deduplication. A stored row and a row of the file
  whose sellers and products are equal after stripping, and whose dates, the stored one
  written year-month-day and the incoming one day/month/year, name the same day: the
  merge marks the incoming key \<^verbatim>\<open>both\<close> and never \<^verbatim>\<open>left_only\<close>, no row with that key
  is among the rows to insert, and none is appended to the table.
\<close>

theorem equivalent_row_is_duplicate:
  assumes stored: "e \<in> set tbl" "cnpj_revenda e = Some s" "data_coleta e = Some dtxt"
      "produto e = Some p"
    and incoming: "r \<in> set f" "cnpj_revenda r = Some rs" "data_coleta r = Some rd"
      "produto r = Some rp"
    and same: "strip rs = strip s" "parse_dmy rd = Some t" "parse_iso dtxt = Some t"
      "strip rp = strip p"
  shows "(\<exists>x. (x, Both) \<in> set (df_merged tbl f) \<and> key_of x = key_of (date_new (strip_new r)))
    \<and> (\<forall>x. (x, Left_only) \<in> set (df_merged tbl f) \<longrightarrow> key_of x \<noteq> key_of (date_new (strip_new r)))
    \<and> (\<forall>x \<in> set (df_to_insert tbl f). key_of x \<noteq> key_of (date_new (strip_new r)))
    \<and> (\<forall>e' \<in> set (drop (length tbl) (table_after tbl f)). key_of e' \<noteq> key_of (date_new (strip_new r)))"
proof -
  let ?K = "key_of (date_new (strip_new r))"
  have K: "?K = (Some (strip s), Some (strftime_iso t), Some (strip p))"
    using incoming same by (simp add: key_of_new astype_str_def to_datetime_new_def)
  have "date_existing (strip_existing (key_of e)) = (Some (strip s), Some (strftime_iso t), Some (strip p))"
    using stored same
    by (simp add: key_of_def strip_existing_def date_existing_def astype_str_def to_datetime_existing_def)
  then have "date_existing (strip_existing (key_of e)) = ?K"
    by (simp only: K)
  with stored(1) have in_ex: "?K \<in> set (existing_records tbl)"
    by (force simp: existing_records_eq)
  have "has_keys r" using incoming by (simp add: has_keys_def)
  with incoming(1) obtain r' where r': "r' \<in> set (drop_duplicates (dropna_subset (dropna_all f)))"
      "key_of r' = key_of r"
    using cleaned_key by blast
  have "date_new (strip_new r') \<in> set (df_new f)"
    using r'(1) by (simp add: df_new_def)
  moreover have "key_of (date_new (strip_new r')) = ?K"
    using r'(2) by (rule key_of_new_cong)
  ultimately have a: "\<exists>x. (x, Both) \<in> set (df_merged tbl f) \<and> key_of x = ?K"
    using in_ex by (auto simp: df_merged_def merge_left_set)
  have b: "\<forall>x. (x, Left_only) \<in> set (df_merged tbl f) \<longrightarrow> key_of x \<noteq> ?K"
    using in_ex by (auto simp: df_merged_def merge_left_set)
  have c: "\<forall>x \<in> set (df_to_insert tbl f). key_of x \<noteq> ?K"
    using in_ex by (auto simp: df_to_insert_eq)
  have "drop (length tbl) (table_after tbl f) = [] \<or> drop (length tbl) (table_after tbl f) = map colunas_db (df_to_insert tbl f)"
  proof (cases "upload_file tbl f")
    case (Inl e)
    then show ?thesis by (simp add: table_after_def)
  next
    case (Inr res)
    obtain tbl' n d where "res = (tbl', n, d)" by (cases res) auto
    with Inr show ?thesis using upload_file_Inr(1)[of tbl f tbl' n d] by (simp add: table_after_def)
  qed
  with c have d: "\<forall>e' \<in> set (drop (length tbl) (table_after tbl f)). key_of e' \<noteq> ?K"
    by (auto simp: key_of_colunas_db)
  from a b c d show ?thesis by blast
qed

theorem equivalent_row_is_duplicate_witness:
  "(date_new (strip_new (example_row '' A '' ''1/1/2024'' '' Gas'' (Num 5) NaN)), Left_only)
     \<notin> set (df_merged [example_record ''A'' (Some ''2024-01-01'') ''Gas'' (Num 5) NaN]
                [example_row '' A '' ''1/1/2024'' '' Gas'' (Num 5) NaN])"
proof -
  let ?e = "example_record ''A'' (Some ''2024-01-01'') ''Gas'' (Num 5) NaN"
  let ?r = "example_row '' A '' ''1/1/2024'' '' Gas'' (Num 5) NaN"
  let ?t = "\<lparr>year = 2024, month = 1, day = 1\<rparr>"
  have stored: "?e \<in> set [?e]" "cnpj_revenda ?e = Some ''A''"
      "data_coleta ?e = Some ''2024-01-01''" "produto ?e = Some ''Gas''"
    by (simp_all add: example_record_def)
  have incoming: "?r \<in> set [?r]" "cnpj_revenda ?r = Some '' A ''"
      "data_coleta ?r = Some ''1/1/2024''" "produto ?r = Some '' Gas''"
    by (simp_all add: example_row_def)
  have same: "strip '' A '' = strip ''A''" "parse_dmy ''1/1/2024'' = Some ?t"
      "parse_iso ''2024-01-01'' = Some ?t" "strip '' Gas'' = strip ''Gas''"
    by (simp_all add: upload_eval)
  from equivalent_row_is_duplicate [OF stored incoming same] show ?thesis
    by blast
qed

text \<open>
  C4, date-parse rejection. The code does not do it: the rows without a key cell are
  dropped at line 135, before the dates are read at line 141, so a row whose date text
  names no date goes on to the merge with an absent date, is stored and is counted as
  new.
\<close>

theorem unparsable_date_is_stored:
  "parse_dmy ''31/02/2024'' = None
   \<and> upload_file [] [example_row ''A'' ''31/02/2024'' ''Gas'' (Num 5) NaN]
       = Inr ([example_record ''A'' None ''Gas'' (Num 5) NaN], 1, 0)"
  by (simp add: upload_eval)

text \<open>
  C5, deduplication within the batch on the normalised key. The code drops repeated keys
  at line 136, before it strips and reads the dates: two rows that differ only in the
  blanks around the seller both reach the merge, both as new, and the table refuses the
  second, so that the whole upload fails.
\<close>

theorem batch_duplicates_reach_merge:
  "map key_of (df_new blank_file)
     = [(Some ''A'', Some ''2024-01-01'', Some ''Gas''), (Some ''A'', Some ''2024-01-01'', Some ''Gas'')]
   \<and> map snd (df_merged [] blank_file) = [Left_only, Left_only]
   \<and> upload_file [] blank_file = Inl IntegrityError"
  by (simp add: blank_file_def upload_eval)

text \<open>
  C6, merge completeness. As stated it fails on the scenario of the specification itself:
  the file has three valid rows, and the counts are 2 new and 0 duplicate, since the
  repeated row is dropped before the merge.
\<close>

theorem counts_incomplete_counterexample:
  "upload_file [] scenario_file
     = Inr ([example_record ''A'' (Some ''2024-01-01'') ''Gas'' (Num 5) NaN,
             example_record ''B'' (Some ''2024-01-01'') ''Gas'' (Num (51 / 10)) NaN], 2, 0)
   \<and> length (filter spec_valid_row scenario_file) = 3"
  by (simp add: scenario_upload scenario_valid) (simp add: scenario_file_def)

text \<open>
  C6 as amended. For a file whose date texts all name a date, the two counts of a
  successful upload add up to the number of valid rows counted once for each key triple
  as written in the file.
\<close>

theorem counts_complete:
  assumes "upload_file tbl f = Inr (tbl', n, d)" and "dates_parse f"
  shows "n + d = length (drop_duplicates (filter spec_valid_row f))"
  using upload_file_Inr(3)[OF assms(1)] by (simp add: df_new_def valid_rows_eq[OF assms(2)])

theorem counts_complete_witness:
  "dates_parse scenario_file
   \<and> (2::nat) + 0 = length (drop_duplicates (filter spec_valid_row scenario_file))"
proof -
  have d: "dates_parse scenario_file"
    by (simp add: dates_parse_def scenario_file_def upload_eval)
  from counts_complete [OF scenario_upload d] d show ?thesis
    by simp
qed




section \<open>Facts about the aggregation\<close>






















lemma produto_with_coleta: "produto (with_coleta r t) = produto r"
  by (simp add: with_coleta_def db_row.extend_def)

lemma read_frame_rows_produto:
  "read_frame_rows tbl = Inr df \<Longrightarrow> map produto df = map produto tbl"
proof (induction tbl arbitrary: df)
  case Nil
  then show ?case by simp
next
  case (Cons r rs)
  from Cons.prems obtain t df' where "read_frame_rows rs = Inr df'" "df = with_coleta r t # df'"
    by (auto split: sum.splits)
  with Cons.IH show ?case by (simp add: produto_with_coleta)
qed

lemma read_frame_produto:
  "read_frame tbl \<noteq> [] \<Longrightarrow> map produto (read_frame tbl) = map produto tbl"
  by (auto simp: read_frame_def split: sum.splits dest: read_frame_rows_produto)

lemma table_after_produto:
  assumes "\<forall>e \<in> set tbl. produto e \<noteq> None"
  shows "\<forall>e \<in> set (table_after tbl f). produto e \<noteq> None"
proof (cases "upload_file tbl f")
  case (Inl e)
  with assms show ?thesis by (simp add: table_after_def)
next
  case (Inr res)
  obtain tbl' n d where res: "res = (tbl', n, d)" by (cases res) auto
  have tbl': "tbl' = tbl @ map colunas_db (df_to_insert tbl f)"
    using Inr res by (intro upload_file_Inr(1)) simp
  have "\<forall>x \<in> set (df_to_insert tbl f). produto (colunas_db x) \<noteq> None"
    by (auto simp: df_to_insert_eq df_new_def colunas_db_def db_row.truncate_def
        date_new_def strip_new_def)
  with assms tbl' have "\<forall>e \<in> set tbl'. produto e \<noteq> None" by auto
  with Inr res show ?thesis by (simp add: table_after_def)
qed

lemma uploads_produto:
  "\<forall>e \<in> set tbl. produto e \<noteq> None \<Longrightarrow> \<forall>e \<in> set (uploads tbl files). produto e \<noteq> None"
  unfolding uploads_def
proof (induction files arbitrary: tbl)
  case Nil
  then show ?case by simp
next
  case (Cons f files)
  from Cons.prems have "\<forall>e \<in> set (table_after tbl f). produto e \<noteq> None"
    by (rule table_after_produto)
  then show ?case using Cons.IH by simp
qed

text \<open>A frame read from a table the uploads wrote has a product as soon as it has a row.\<close>

lemma uploads_frame_has_product:
  assumes "read_frame (uploads [] files) \<noteq> []"
  shows "\<exists>q. Some q \<in> set (map produto (read_frame (uploads [] files)))"
proof -
  let ?tbl = "uploads [] files"
  have m: "map produto (read_frame ?tbl) = map produto ?tbl"
    using assms by (rule read_frame_produto)
  with assms have "?tbl \<noteq> []" by auto
  then obtain e where e: "e \<in> set ?tbl" by (cases ?tbl) auto
  have "\<forall>e \<in> set ?tbl. produto e \<noteq> None"
    by (rule uploads_produto) simp
  with e obtain q where "produto e = Some q" by auto
  with e have "Some q \<in> set (map produto ?tbl)" by force
  with m show ?thesis by auto
qed

section \<open>Properties of the aggregation\<close>






text \<open>
  C10, empty dataset. On the empty table the route renders the page that says the base is
  empty, with no analysis at all: no view is computed and nothing is raised.
\<close>

theorem empty_dataset: "dashboard [] = Inr Base_vazia \<and> dashboard_frame [] = Inr Base_vazia"
  by (simp add: dashboard_def read_frame_def dashboard_frame_def)

end
